theory Spec2Isabelle
  imports Main "HOL-Library.Sublist"
begin

section \<open>Strings of the Go standard library\<close>

text \<open>
  A Go string is a sequence of bytes, here a \<^typ>\<open>string\<close> whose characters are the bytes.
  \<^verbatim>\<open>strings.TrimSpace\<close> and \<^verbatim>\<open>strings.ToLower\<close> have a path for text that is ASCII and
  fall back to the Unicode tables of the standard library as soon as they meet a byte of
  \<^verbatim>\<open>utf8.RuneSelf\<close> (0x80) or above. The ASCII paths are written out; the Unicode paths are
  the three functions of the record \<open>unicode\<close>, which every theorem leaves arbitrary.
\<close>

record unicode =
  uniTrimFunc :: "string \<Rightarrow> string"        \<comment> \<open>\<^verbatim>\<open>TrimFunc(s, unicode.IsSpace)\<close>\<close>
  uniTrimRightFunc :: "string \<Rightarrow> string"   \<comment> \<open>\<^verbatim>\<open>TrimRightFunc(s, unicode.IsSpace)\<close>\<close>
  uniMapToLower :: "string \<Rightarrow> string"      \<comment> \<open>\<^verbatim>\<open>Map(unicode.ToLower, s)\<close>\<close>

definition runeSelf :: "char \<Rightarrow> bool" where
  "runeSelf c = (128 \<le> (of_char c :: nat))"

definition asciiSpace :: "char \<Rightarrow> bool" where
  "asciiSpace c = (c \<in> {CHR 0x09, CHR 0x0A, CHR 0x0B, CHR 0x0C, CHR 0x0D, CHR 0x20})"

definition upperASCII :: "char \<Rightarrow> bool" where
  "upperASCII c = (65 \<le> (of_char c :: nat) \<and> (of_char c :: nat) \<le> 90)"

definition lowerByte :: "char \<Rightarrow> char" where
  "lowerByte c = (if upperASCII c then char_of ((of_char c :: nat) + 32) else c)"

text \<open>
  \<^verbatim>\<open>TrimSpace\<close>: skip ASCII white space from the left; a non-ASCII byte hands the rest to
  \<^verbatim>\<open>TrimFunc\<close>. Then skip ASCII white space from the right; a non-ASCII byte there hands
  what is left to \<^verbatim>\<open>TrimRightFunc\<close>.
\<close>

definition TrimSpace :: "'u unicode_scheme \<Rightarrow> string \<Rightarrow> string" where
  "TrimSpace U s =
     (case dropWhile asciiSpace s of
        [] \<Rightarrow> []
      | c # t \<Rightarrow>
          if runeSelf c then uniTrimFunc U (c # t)
          else (case dropWhile asciiSpace (rev (c # t)) of
                  [] \<Rightarrow> []
                | d # r \<Rightarrow> if runeSelf d then uniTrimRightFunc U (rev (d # r))
                           else rev (d # r)))"

definition ToLower :: "'u unicode_scheme \<Rightarrow> string \<Rightarrow> string" where
  "ToLower U s = (if list_ex runeSelf s then uniMapToLower U s else map lowerByte s)"

text \<open>
  \<^verbatim>\<open>ReplaceAll(s, old, new)\<close> for a non-empty \<open>old\<close>: the occurrences of \<open>old\<close> are found
  from the left and do not overlap. (With an empty \<open>old\<close> Go inserts \<open>new\<close> around every
  UTF-8 sequence; here that is every byte, which is the same on ASCII text. The program
  passes non-empty literals only.)
\<close>

function replaceFrom :: "string \<Rightarrow> string \<Rightarrow> string \<Rightarrow> string" where
  "replaceFrom old new [] = []"
| "replaceFrom old new (c # s) =
     (if old \<noteq> [] \<and> prefix old (c # s)
      then new @ replaceFrom old new (drop (length old) (c # s))
      else c # replaceFrom old new s)"
  by pat_completeness auto
termination
  by (relation "measure (\<lambda>(old, new, s). length s)") auto

definition ReplaceAll :: "string \<Rightarrow> string \<Rightarrow> string \<Rightarrow> string" where
  "ReplaceAll s old new =
     (if old = [] then new @ concat (map (\<lambda>c. c # new) s) else replaceFrom old new s)"

text \<open>\<^verbatim>\<open>strings.Contains(s, sub)\<close>.\<close>

fun Contains :: "string \<Rightarrow> string \<Rightarrow> bool" where
  "Contains [] sub = (sub = [])"
| "Contains (c # s) sub = (prefix sub (c # s) \<or> Contains s sub)"


section \<open>The world outside the program\<close>

text \<open>
  Everything the program asks of its environment is a \<open>request\<close>: a look-up on the search
  path, an external process (with the way its output is captured, its working directory,
  its name and arguments), a file-system call, or a line read from standard input with
  \<^verbatim>\<open>ReadString('\n')\<close>. The environment answers with a \<open>response\<close>; the answer may depend
  on the moment of the request, which is the number of events before it. (The program is
  deterministic, so an environment whose answers depend on the whole history answers as
  one of these does, moment by moment.) The log records, in order, what the program wrote
  to standard output and every request with its answer; it is the only state.
\<close>

datatype capture = Inherit | Discard | Combined | StdoutOnly

datatype request =
    LookPath string
  | Run capture "string option" string "string list"
  | Getwd
  | MkdirAll string
  | ReadFile string
  | WriteFile string string
  | Stat string
  | ReadLine

text \<open>
  \<open>Ok\<close> carries the data of a successful call (process output, file content, directory,
  input line). \<open>NotExist\<close> is an error for which \<^verbatim>\<open>os.IsNotExist\<close> holds; \<open>Failed\<close> is any
  other error, with the data that came before it.
\<close>

datatype response = Ok string | NotExist | Failed string

datatype event = Out string | Call request response

type_synonym log = "event list"

text \<open>Values decoded by \<^verbatim>\<open>encoding/json\<close> into \<^verbatim>\<open>interface{}\<close>; the number is not inspected.\<close>

datatype json =
    JNull | JBool bool | JNumber string | JString string
  | JArray "json list" | JObject "(string \<times> json) list"

text \<open>
  The environment: the Unicode paths of the string functions, the answers to requests,
  \<^verbatim>\<open>filepath.Join\<close>, \<^verbatim>\<open>json.Unmarshal\<close> into a \<^verbatim>\<open>map[string]interface{}\<close> (\<open>None\<close> when it
  returns an error, else the entries of the map), and the two embedded configuration
  files.
\<close>

record env = unicode +
  respond :: "nat \<Rightarrow> request \<Rightarrow> response"
  pathJoin :: "string list \<Rightarrow> string"
  unmarshal :: "string \<Rightarrow> (string \<times> json) list option"
  configIndicatorYML :: string
  configSettingsYML :: string

datatype error = Errorf string | CallError request response

datatype panic = IndexOutOfRange

definition isOk :: "response \<Rightarrow> bool" where
  "isOk r = (case r of Ok _ \<Rightarrow> True | _ \<Rightarrow> False)"

definition payload :: "response \<Rightarrow> string" where
  "payload r = (case r of Ok s \<Rightarrow> s | NotExist \<Rightarrow> [] | Failed s \<Rightarrow> s)"

definition call :: "env \<Rightarrow> request \<Rightarrow> log \<Rightarrow> response \<times> log" where
  "call E rq l = (let r = respond E (length l) rq in (r, l @ [Call rq r]))"

text \<open>The error of a call, as Go returns it: \<^verbatim>\<open>nil\<close> on success.\<close>

definition errOf :: "request \<Rightarrow> response \<Rightarrow> error option" where
  "errOf rq r = (if isOk r then None else Some (CallError rq r))"

definition index :: "'a list \<Rightarrow> nat \<Rightarrow> panic + 'a" where
  "index xs i = (if i < length xs then Inr (xs ! i) else Inl IndexOutOfRange)"

section \<open>Output\<close>

definition nl :: string where "nl = [CHR 0x0A]"
definition esc :: string where "esc = [CHR 0x1B]"
definition colorRed :: string where "colorRed = esc @ ''[0;31m''"
definition colorGreen :: string where "colorGreen = esc @ ''[0;32m''"
definition colorYellow :: string where "colorYellow = esc @ ''[1;33m''"
definition colorBlue :: string where "colorBlue = esc @ ''[0;34m''"
definition colorReset :: string where "colorReset = esc @ ''[0m''"

text \<open>The check mark and the ballot cross of the messages, in UTF-8.\<close>

definition checkMark :: string where "checkMark = [CHR 0xE2, CHR 0x9C, CHR 0x93]"
definition crossMark :: string where "crossMark = [CHR 0xE2, CHR 0x9C, CHR 0x97]"
definition quote :: string where "quote = [CHR 0x27]"

definition Print :: "string \<Rightarrow> log \<Rightarrow> log" where
  "Print s l = l @ [Out s]"

definition Println :: "string \<Rightarrow> log \<Rightarrow> log" where
  "Println s l = l @ [Out (s @ nl)]"

definition printStatus :: "string \<Rightarrow> log \<Rightarrow> log" where
  "printStatus msg l = l @ [Out (colorBlue @ ''[INFO]'' @ colorReset @ '' '' @ msg @ nl)]"

definition printSuccess :: "string \<Rightarrow> log \<Rightarrow> log" where
  "printSuccess msg l = l @ [Out (colorGreen @ ''[SUCCESS]'' @ colorReset @ '' '' @ msg @ nl)]"

definition printWarning :: "string \<Rightarrow> log \<Rightarrow> log" where
  "printWarning msg l = l @ [Out (colorYellow @ ''[WARNING]'' @ colorReset @ '' '' @ msg @ nl)]"

definition printError :: "string \<Rightarrow> log \<Rightarrow> log" where
  "printError msg l = l @ [Out (colorRed @ ''[ERROR]'' @ colorReset @ '' '' @ msg @ nl)]"

section \<open>Running commands\<close>

definition commandExists :: "env \<Rightarrow> string \<Rightarrow> log \<Rightarrow> bool \<times> log" where
  "commandExists E cmd l = (let (r, l) = call E (LookPath cmd) l in (isOk r, l))"

definition runCommand :: "env \<Rightarrow> string \<Rightarrow> string list \<Rightarrow> log \<Rightarrow> error option \<times> log" where
  "runCommand E name args l =
     (let rq = Run Inherit None name args; (r, l) = call E rq l in (errOf rq r, l))"

definition runCommandOutput ::
  "env \<Rightarrow> string \<Rightarrow> string list \<Rightarrow> log \<Rightarrow> (string \<times> error option) \<times> log" where
  "runCommandOutput E name args l =
     (let rq = Run Combined None name args; (r, l) = call E rq l
      in ((payload r, errOf rq r), l))"

definition brewPackageInstalled :: "env \<Rightarrow> string \<Rightarrow> log \<Rightarrow> bool \<times> log" where
  "brewPackageInstalled E pkg l =
     (let (r, l) = call E (Run Discard None ''brew'' [''list'', pkg]) l in (isOk r, l))"

text \<open>A process run in the project directory with the terminal as its output.\<close>

definition runIn :: "env \<Rightarrow> string \<Rightarrow> string \<Rightarrow> string list \<Rightarrow> log \<Rightarrow> error option \<times> log" where
  "runIn E dir name args l =
     (let rq = Run Inherit (Some dir) name args; (r, l) = call E rq l in (errOf rq r, l))"


section \<open>Prerequisites and installers\<close>

definition checkHomebrew :: "env \<Rightarrow> log \<Rightarrow> error option \<times> log" where
  "checkHomebrew E l =
     (let (found, l) = commandExists E ''brew'' l in
      if \<not> found then
        (Some (Errorf ''homebrew not installed''),
         Println ''See https://docs.brew.sh/Installation for instructions.''
           (printError ''Homebrew is not installed. Please install Homebrew first:'' l))
      else (None, printSuccess ''Homebrew is installed'' l))"

definition installDocker :: "env \<Rightarrow> log \<Rightarrow> bool \<times> log" where
  "installDocker E l =
     (let l = printStatus ''Checking Docker Desktop installation...'' l;
          (installed, l) = brewPackageInstalled E ''docker'' l in
      if installed then (True, printSuccess ''Docker Desktop is already installed'' l)
      else
        (let l = printStatus ''Docker Desktop not found. Installing via Homebrew...'' l;
             (err, l) = runCommand E ''brew'' [''install'', ''docker''] l in
         if err \<noteq> None then (False, printError ''Failed to install Docker Desktop'' l)
         else
           (False,
            printWarning ''You may need to restart your terminal after starting Docker Desktop.''
              (printSuccess
                 ''Docker Desktop installed. Please start Docker Desktop from Applications.'' l))))"

definition checkDockerRunning :: "env \<Rightarrow> log \<Rightarrow> bool \<times> log" where
  "checkDockerRunning E l =
     (let (r, l) = call E (Run Discard None ''docker'' [''info'']) l in
      if isOk r then (True, printSuccess ''Docker is running'' l)
      else (False, printWarning ''Docker is not running. Please start Docker Desktop.'' l))"

definition installColima :: "env \<Rightarrow> log \<Rightarrow> bool \<times> log" where
  "installColima E l =
     (let l = printStatus ''Checking Colima installation...'' l;
          (found, l) = commandExists E ''colima'' l in
      if found then (True, printSuccess ''Colima is already installed'' l)
      else
        (let l = printStatus ''Colima not found. Installing via Homebrew...'' l;
             (err, l) = runCommand E ''brew'' [''install'', ''colima''] l in
         if err \<noteq> None then (False, printError ''Failed to install Colima'' l)
         else (False, printSuccess ''Colima installed'' l)))"

definition checkColimaRunning :: "env \<Rightarrow> log \<Rightarrow> bool \<times> log" where
  "checkColimaRunning E l =
     (let (r, l) = call E (Run Discard None ''colima'' [''status'']) l in
      if isOk r then (True, printSuccess ''Colima is running'' l)
      else (False, printWarning ''Colima is not running.'' l))"

definition startColima :: "env \<Rightarrow> log \<Rightarrow> log" where
  "startColima E l =
     (let l = printStatus ''Starting Colima...'' l;
          (r, l) = call E (Run Discard None ''colima'' [''status'']) l in
      if isOk r then printSuccess ''Colima is already running'' l
      else
        (let (err, l) = runCommand E ''colima'' [''start''] l in
         if err \<noteq> None then printError ''Failed to start Colima'' l
         else printSuccess ''Colima started'' l))"

definition installDDEV :: "env \<Rightarrow> log \<Rightarrow> bool \<times> log" where
  "installDDEV E l =
     (let l = printStatus ''Checking DDEV installation...'' l;
          (found, l) = commandExists E ''ddev'' l in
      if found then (True, printSuccess ''DDEV is already installed'' l)
      else
        (let l = printStatus ''DDEV not found. Installing via Homebrew...'' l;
             (err, l) = runCommand E ''brew'' [''install'', ''ddev/ddev/ddev''] l in
         if err \<noteq> None then (False, printError ''Failed to install DDEV'' l)
         else (False, printSuccess ''DDEV installed'' l)))"

definition checkDDEVVersion :: "env \<Rightarrow> log \<Rightarrow> log" where
  "checkDDEVVersion E l =
     (let (found, l) = commandExists E ''ddev'' l in
      if found then
        (let ((output, err), l) = runCommandOutput E ''ddev'' [''version''] l in
         printSuccess (''DDEV version: '' @ TrimSpace E output) l)
      else l)"

definition checkPrerequisites :: "env \<Rightarrow> string \<Rightarrow> log \<Rightarrow> log" where
  "checkPrerequisites E dockerProvider l =
     (let l = Println ''=========================================='' l;
          l = printStatus ''Checking Prerequisites'' l;
          l = Println ''=========================================='' l;
          (brew, l) = commandExists E ''brew'' l;
          l = (if brew then printSuccess (checkMark @ '' Homebrew is installed'') l
               else printError (crossMark @ '' Homebrew is not installed'') l);
          l = (if dockerProvider = ''docker'' then
                 (let (docker, l) = brewPackageInstalled E ''docker'' l in
                  if docker then printSuccess (checkMark @ '' Docker Desktop is installed'') l
                  else printWarning (crossMark @ '' Docker Desktop is not installed'') l)
               else
                 (let (colima, l) = commandExists E ''colima'' l in
                  if colima then printSuccess (checkMark @ '' Colima is installed'') l
                  else printWarning (crossMark @ '' Colima is not installed'') l));
          (ddev, l) = commandExists E ''ddev'' l;
          l = (if ddev then printSuccess (checkMark @ '' DDEV is installed'') l
               else printWarning (crossMark @ '' DDEV is not installed'') l)
      in Println [] l)"

section \<open>The project\<close>

text \<open>
  \<open>initDrupalProject\<close>: the line read at the prompt is trimmed; an empty result is
  refused before the working directory is asked for and before \<^verbatim>\<open>composer\<close> runs. The
  name is then lower-cased and its spaces replaced.
\<close>

definition initDrupalProject :: "env \<Rightarrow> log \<Rightarrow> (error + string) \<times> log" where
  "initDrupalProject E l =
     (let l = printStatus ''Initializing Drupal project...'' l;
          l = Println [] l;
          l = Print (''Enter your Drupal project name (e.g., '' @ quote @ ''my-drupal-site''
                     @ quote @ ''): '') l;
          (r, l) = call E ReadLine l;
          projectName = TrimSpace E (payload r) in
      if projectName = [] then
        (Inl (Errorf ''empty project name''), printError ''Project name cannot be empty'' l)
      else
        (let projectName = ToLower E projectName;
             projectName = ReplaceAll projectName '' '' ''-'';
             (cwd, l) = call E Getwd l in
         if \<not> isOk cwd then
           (Inl (CallError Getwd cwd), printError ''Failed to get current directory'' l)
         else
           (let projectPath = pathJoin E [payload cwd, projectName];
                l = printStatus (''Creating Drupal project: '' @ projectName) l;
                (err, l) = runCommand E ''composer''
                             [''create-project'', ''drupal/recommended-project:^11'', projectPath] l in
            case err of
              Some e \<Rightarrow> (Inl e, printError ''Failed to create Drupal project'' l)
            | None \<Rightarrow>
                (Inr projectPath,
                 printSuccess (checkMark @ '' Drupal project '' @ quote @ projectName @ quote
                               @ '' initialized'') l))))"


definition setupDrupalSettings :: "env \<Rightarrow> string \<Rightarrow> log \<Rightarrow> error option \<times> log" where
  "setupDrupalSettings E projectPath l =
     (let l = printStatus ''Setting up Drupal settings...'' l;
          configSyncPath = pathJoin E [projectPath, ''config'', ''sync''];
          (mk, l) = call E (MkdirAll configSyncPath) l in
      if \<not> isOk mk then
        (Some (CallError (MkdirAll configSyncPath) mk),
         printError ''Failed to create config directory'' l)
      else
        (let settingsPath =
               pathJoin E [projectPath, ''web'', ''sites'', ''default'', ''settings.ddev.php''];
             (rd, l) = call E (ReadFile settingsPath) l in
         if \<not> isOk rd then
           (Some (CallError (ReadFile settingsPath) rd),
            printError ''Failed to read settings.ddev.php'' l)
         else
           (let newContent = ReplaceAll (payload rd) ''sites/default/files/sync'' ''../config/sync'';
                (wr, l) = call E (WriteFile settingsPath newContent) l in
            if \<not> isOk wr then
              (Some (CallError (WriteFile settingsPath newContent) wr),
               printError ''Failed to write settings.ddev.php'' l)
            else
              (let indicatorPath =
                     pathJoin E [configSyncPath, ''environment_indicator.indicator.yml''];
                   (wi, l) = call E (WriteFile indicatorPath (configIndicatorYML E)) l in
               if \<not> isOk wi then
                 (Some (CallError (WriteFile indicatorPath (configIndicatorYML E)) wi),
                  printError ''Failed to write config files'' l)
               else
                 (let settingsConfigPath =
                        pathJoin E [configSyncPath, ''environment_indicator.settings.yml''];
                      (ws, l) = call E (WriteFile settingsConfigPath (configSettingsYML E)) l in
                  if \<not> isOk ws then
                    (Some (CallError (WriteFile settingsConfigPath (configSettingsYML E)) ws),
                     printError ''Failed to write config files'' l)
                  else
                    (let (st, l) = call E (Stat configSyncPath) l in
                     if st = NotExist then
                       (Some (CallError (Stat configSyncPath) st),
                        printError
                          ''Config directory not found at config/sync. Skipping config import.'' l)
                     else (None, printSuccess (checkMark @ '' Drupal settings setup completed'') l)))))))"

definition initDDEVProject :: "env \<Rightarrow> string \<Rightarrow> log \<Rightarrow> error option \<times> log" where
  "initDDEVProject E projectPath l =
     (let l = printStatus ''Initializing DDEV project...'' l;
          ddevPath = pathJoin E [projectPath, ''.ddev''];
          (st, l) = call E (Stat ddevPath) l in
      if isOk st then
        (None, printWarning ''.ddev directory already exists. Skipping DDEV init.'' l)
      else
        (let (err, l) = runIn E projectPath ''ddev''
                          [''config'', ''--project-type=drupal11'', ''--docroot=web'',
                           ''--create-docroot''] l in
         case err of
           Some e \<Rightarrow> (Some e, printError ''Failed to initialize DDEV project'' l)
         | None \<Rightarrow> (None, printSuccess ''DDEV project initialized'' l)))"

definition startDDEV :: "env \<Rightarrow> string \<Rightarrow> log \<Rightarrow> error option \<times> log" where
  "startDDEV E projectPath l =
     (let l = printStatus ''Starting DDEV...'' l;
          (err, l) = runIn E projectPath ''ddev'' [''start''] l in
      case err of
        Some e \<Rightarrow> (Some e, printError ''Failed to start DDEV'' l)
      | None \<Rightarrow> (None, printSuccess ''DDEV started'' l))"

definition packages :: "string list list" where
  "packages =
     [[''composer'', ''install''],
      [''composer'', ''require'', ''drupal/core-dev'', ''--dev'', ''-W''],
      [''composer'', ''require'', ''drush/drush''],
      [''composer'', ''require'', ''drupal/admin_toolbar''],
      [''composer'', ''require'', ''drupal/token''],
      [''composer'', ''require'', ''drupal/pathauto''],
      [''composer'', ''require'', ''drupal/config_ignore''],
      [''composer'', ''require'', ''drupal/config_split''],
      [''composer'', ''require'', ''drupal/devel''],
      [''composer'', ''require'', ''drupal/environment_indicator''],
      [''composer'', ''require'', ''drupal/better_exposed_filters''],
      [''composer'', ''require'', ''drupal/key''],
      [''composer'', ''require'', ''drupal/webprofiler''],
      [''composer'', ''require'', ''drupal/diff:^2.0@beta''],
      [''composer'', ''require'', ''drupal/ultimate_cron:^2.0@beta'']]"

text \<open>The format \<^verbatim>\<open>%v\<close> of a slice of strings.\<close>

definition fmtSlice :: "string list \<Rightarrow> string" where
  "fmtSlice xs = ''['' @ concat (case xs of [] \<Rightarrow> [] | x # r \<Rightarrow> x # map (\<lambda>y. '' '' @ y) r) @ '']''"

text \<open>The loop over the packages: the first failing command ends it.\<close>

fun installPackages :: "env \<Rightarrow> string \<Rightarrow> string list list \<Rightarrow> log \<Rightarrow> error option \<times> log" where
  "installPackages E projectPath [] l = (None, l)"
| "installPackages E projectPath (pkg # rest) l =
     (case runIn E projectPath ''ddev'' pkg l of
        (Some e, l) \<Rightarrow> (Some e, printError (''Failed to install '' @ fmtSlice pkg) l)
      | (None, l) \<Rightarrow> installPackages E projectPath rest l)"

definition installDrupalDependencies :: "env \<Rightarrow> string \<Rightarrow> log \<Rightarrow> error option \<times> log" where
  "installDrupalDependencies E projectPath l =
     (let l = printStatus ''Installing Drupal dependencies with Composer...'' l in
      case installPackages E projectPath packages l of
        (Some e, l) \<Rightarrow> (Some e, l)
      | (None, l) \<Rightarrow> (None, printSuccess (checkMark @ '' Drupal dependencies installed'') l))"

definition installDrupalSite :: "env \<Rightarrow> string \<Rightarrow> log \<Rightarrow> error option \<times> log" where
  "installDrupalSite E projectPath l =
     (let l = printStatus ''Installing Drupal site...'' l;
          (err, l) = runIn E projectPath ''ddev''
                       [''drush'', ''site:install'', ''standard'', ''--yes'', ''--account-name=admin'',
                        ''--account-pass=admin'', ''--site-name=Super Awesome Site''] l in
      case err of
        Some e \<Rightarrow> (Some e, printError ''Failed to install Drupal site'' l)
      | None \<Rightarrow>
          (None,
           printStatus ''Admin credentials: username=admin, password=admin''
             (printSuccess ''Drupal site installed'' l)))"

definition modules :: "string list" where
  "modules =
     [''admin_toolbar'', ''config_split'', ''devel'', ''environment_indicator'',
      ''environment_indicator_ui'', ''environment_indicator_toolbar'',
      ''token'', ''pathauto'', ''config_ignore'', ''better_exposed_filters'',
      ''key'', ''webprofiler'', ''diff'', ''ultimate_cron'', ''devel_generate'']"

definition enableDrupalModules :: "env \<Rightarrow> string \<Rightarrow> log \<Rightarrow> error option \<times> log" where
  "enableDrupalModules E projectPath l =
     (let l = printStatus ''Enabling Drupal modules...'' l;
          args = [''drush'', ''en'', ''-y''] @ modules;
          (err, l) = runIn E projectPath ''ddev'' args l in
      case err of
        Some e \<Rightarrow> (Some e, printError ''Failed to enable modules'' l)
      | None \<Rightarrow> (None, printSuccess (checkMark @ '' Drupal modules enabled'') l))"

definition importDrupalConfig :: "env \<Rightarrow> string \<Rightarrow> log \<Rightarrow> error option \<times> log" where
  "importDrupalConfig E projectPath l =
     (let l = printStatus ''Importing Drupal config...'' l;
          importPath = pathJoin E [projectPath, ''config'', ''sync''];
          (st, l) = call E (Stat importPath) l in
      if st = NotExist then
        (None,
         printWarning ''Config directory not found at config/sync. Skipping config import.'' l)
      else
        (let (err, l) = runIn E projectPath ''ddev''
                          [''drush'', ''config:import'', ''--partial'', ''--yes''] l in
         case err of
           Some e \<Rightarrow> (Some e, printError ''Failed to import config'' l)
         | None \<Rightarrow> (None, printSuccess (checkMark @ '' Drupal config imported'') l)))"

text \<open>The two commands of the content generation.\<close>

definition genuArgs :: "string list" where
  "genuArgs = [''drush'', ''genu'', ''10'', ''--kill'', ''--roles=content_editor'']"

definition gencArgs :: "string list" where
  "gencArgs = [''drush'', ''genc'', ''25'', ''-y'', ''--kill'', ''--roles=content_editor'',
               ''--skip-fields=field_tags'']"

definition generateDrupalContent :: "env \<Rightarrow> string \<Rightarrow> log \<Rightarrow> error option \<times> log" where
  "generateDrupalContent E projectPath l =
     (let l = Print ''Do you want to generate content? (y/N): '' l;
          (r, l) = call E ReadLine l;
          response = TrimSpace E (ToLower E (payload r)) in
      if response \<noteq> ''y'' then
        (None, printSuccess (checkMark @ '' Drupal content generation skipped'') l)
      else
        (let l = printStatus ''Generating Drupal content...'' l;
             (err, l) = runIn E projectPath ''ddev'' genuArgs l in
         case err of
           Some e \<Rightarrow> (Some e, printError ''Failed to generate users'' l)
         | None \<Rightarrow>
             (let (err, l) = runIn E projectPath ''ddev'' gencArgs l in
              case err of
                Some e \<Rightarrow> (Some e, printError ''Failed to generate content'' l)
              | None \<Rightarrow> (None, printSuccess (checkMark @ '' Drupal content generated'') l))))"


section \<open>The site URL\<close>

text \<open>
  The look-ups of \<open>getSiteURL\<close> in the decoded document. A type assertion with
  \<^verbatim>\<open>, ok\<close> yields no panic; the index \<^verbatim>\<open>raw[0]\<close> would, out of range, and is a branch here.
  \<open>None\<close> is the fall-through to the warning.
\<close>

definition httpsURL :: "(string \<times> json) list \<Rightarrow> panic + string option" where
  "httpsURL result =
     (case map_of result ''raw'' of
        Some (JArray raw) \<Rightarrow>
          if 0 < length raw then
            (case index raw 0 of
               Inl p \<Rightarrow> Inl p
             | Inr (JObject project) \<Rightarrow>
                 (case map_of project ''https_url'' of
                    Some (JString u) \<Rightarrow> Inr (Some u)
                  | _ \<Rightarrow> Inr None)
             | Inr _ \<Rightarrow> Inr None)
          else Inr None
      | _ \<Rightarrow> Inr None)"

definition describeRequest :: "string \<Rightarrow> request" where
  "describeRequest projectPath =
     Run StdoutOnly (Some projectPath) ''ddev'' [''describe'', ''--json-output'']"

definition tryDescribe :: string where
  "tryDescribe = ''Could not determine site URL. Try running '' @ quote @ ''ddev describe'' @ quote"

definition getSiteURL :: "env \<Rightarrow> string \<Rightarrow> log \<Rightarrow> (panic + string) \<times> log" where
  "getSiteURL E projectPath l =
     (let l = printStatus ''Getting site URL...'' l;
          (r, l) = call E (describeRequest projectPath) l in
      if \<not> isOk r then (Inr [], printWarning tryDescribe l)
      else
        (case unmarshal E (payload r) of
           None \<Rightarrow> (Inr [], printWarning ''Could not parse site URL'' l)
         | Some result \<Rightarrow>
             (case httpsURL result of
                Inl p \<Rightarrow> (Inl p, l)
              | Inr (Some u) \<Rightarrow> (Inr u, printSuccess (''Site URL: '' @ u) l)
              | Inr None \<Rightarrow> (Inr [], printWarning tryDescribe l))))"

definition displayFinalInstructions :: "string \<Rightarrow> log \<Rightarrow> log" where
  "displayFinalInstructions siteURL l =
     (let l = Println [] l;
          l = Println ''=========================================='' l;
          l = printSuccess ''Drupal 11 installation completed!'' l;
          l = Println ''=========================================='' l;
          l = Println [] l;
          l = Println ''Next steps:'' l;
          l = (if siteURL \<noteq> [] then Print (''1. Visit your site: '' @ siteURL @ nl) l
               else Println (''1. Run '' @ quote @ ''ddev describe'' @ quote
                             @ '' to get your site URL'') l);
          l = Println ''2. Login with: username=admin, password=admin'' l;
          l = Println ''3. Useful DDEV commands:'' l;
          l = Println ''   - ddev describe    # Show project info'' l;
          l = Println ''   - ddev drush       # Run Drush commands'' l;
          l = Println ''   - ddev ssh         # SSH into container'' l;
          l = Println ''   - ddev stop        # Stop the project'' l;
          l = Println ''   - ddev start       # Start the project'' l;
          l = Println [] l
      in Println ''For more information, visit: https://ddev.readthedocs.io/'' l)"

section \<open>The main sequence\<close>

definition selectDockerProvider :: "env \<Rightarrow> log \<Rightarrow> string \<times> log" where
  "selectDockerProvider E l =
     (let l = Println ''Which Docker provider would you like to use?'' l;
          l = Println ''1. Docker Desktop'' l;
          l = Println ''2. Colima'' l;
          l = Print ''Enter your choice (1 or 2): '' l;
          (r, l) = call E ReadLine l;
          response = TrimSpace E (payload r) in
      if response = ''2'' then (''colima'', l) else (''docker'', l))"

text \<open>
  \<open>main\<close> is cut where it may leave: each part below is \<open>main\<close> from one of its exits to
  its end, and the result is the exit code with the final log. \<^verbatim>\<open>os.Exit(1)\<close> is the
  code 1, the return from \<open>main\<close> the code 0, a panic the code 2 of the Go runtime.
\<close>

definition exitOnError :: "error option \<times> log \<Rightarrow> (log \<Rightarrow> int \<times> log) \<Rightarrow> int \<times> log" where
  "exitOnError r k = (case r of (Some e, l) \<Rightarrow> (1, l) | (None, l) \<Rightarrow> k l)"

text \<open>Lines 591 to 597: content generation, the site URL, the final instructions.\<close>

definition main_finish :: "env \<Rightarrow> string \<Rightarrow> log \<Rightarrow> int \<times> log" where
  "main_finish E projectPath l =
     (let (err, l) = generateDrupalContent E projectPath l;
          l = (if err \<noteq> None then printWarning ''Content generation failed, but continuing...'' l
               else l) in
      case getSiteURL E projectPath l of
        (Inl p, l) \<Rightarrow> (2, l)
      | (Inr siteURL, l) \<Rightarrow> (0, displayFinalInstructions siteURL l))"

definition main_import :: "env \<Rightarrow> string \<Rightarrow> log \<Rightarrow> int \<times> log" where
  "main_import E projectPath l = exitOnError (importDrupalConfig E projectPath l) (main_finish E projectPath)"

definition main_modules :: "env \<Rightarrow> string \<Rightarrow> log \<Rightarrow> int \<times> log" where
  "main_modules E projectPath l = exitOnError (enableDrupalModules E projectPath l) (main_import E projectPath)"

definition main_site :: "env \<Rightarrow> string \<Rightarrow> log \<Rightarrow> int \<times> log" where
  "main_site E projectPath l = exitOnError (installDrupalSite E projectPath l) (main_modules E projectPath)"

definition main_settings :: "env \<Rightarrow> string \<Rightarrow> log \<Rightarrow> int \<times> log" where
  "main_settings E projectPath l = exitOnError (setupDrupalSettings E projectPath l) (main_site E projectPath)"

definition main_dependencies :: "env \<Rightarrow> string \<Rightarrow> log \<Rightarrow> int \<times> log" where
  "main_dependencies E projectPath l =
     exitOnError (installDrupalDependencies E projectPath l) (main_settings E projectPath)"

definition main_start :: "env \<Rightarrow> string \<Rightarrow> log \<Rightarrow> int \<times> log" where
  "main_start E projectPath l = exitOnError (startDDEV E projectPath l) (main_dependencies E projectPath)"

definition main_init :: "env \<Rightarrow> string \<Rightarrow> log \<Rightarrow> int \<times> log" where
  "main_init E projectPath l = exitOnError (initDDEVProject E projectPath l) (main_start E projectPath)"

text \<open>Lines 558 to 561, then the rest.\<close>

definition main_project :: "env \<Rightarrow> log \<Rightarrow> int \<times> log" where
  "main_project E l =
     (case initDrupalProject E l of
        (Inl e, l) \<Rightarrow> (1, l)
      | (Inr projectPath, l) \<Rightarrow> main_init E projectPath l)"

text \<open>Lines 552 to 556, then the rest.\<close>

definition main_ddev :: "env \<Rightarrow> log \<Rightarrow> int \<times> log" where
  "main_ddev E l =
     (let (ok, l) = installDDEV E l in
      if \<not> ok then (1, l) else main_project E (checkDDEVVersion E l))"

text \<open>
  Lines 535 to 550, the container backend: whether \<open>main\<close> goes on, and the log. The
  results of \<open>installDocker\<close> and \<open>installColima\<close> are dropped.
\<close>

definition providerReady :: "env \<Rightarrow> string \<Rightarrow> log \<Rightarrow> bool \<times> log" where
  "providerReady E dockerProvider l =
     (if dockerProvider = ''docker'' then
        (let (installed, l) = installDocker E l;
             (running, l) = checkDockerRunning E l in
         if \<not> running then
           (False, printError ''Please start Docker Desktop and run this script again.'' l)
         else (True, l))
      else
        (let (installed, l) = installColima E l;
             (running, l) = checkColimaRunning E l in
         if \<not> running then
           (let l = startColima E l;
                (running, l) = checkColimaRunning E l in
            if \<not> running then
              (False,
               printError
                 ''Failed to start Colima. Please start it manually and run this script again.'' l)
            else (True, l))
         else (True, l)))"

definition main_provider :: "env \<Rightarrow> string \<Rightarrow> log \<Rightarrow> int \<times> log" where
  "main_provider E dockerProvider l =
     (let (ready, l) = providerReady E dockerProvider l in
      if \<not> ready then (1, l) else main_ddev E l)"

text \<open>Lines 529 to 533, then the rest.\<close>

definition main_homebrew :: "env \<Rightarrow> string \<Rightarrow> log \<Rightarrow> int \<times> log" where
  "main_homebrew E dockerProvider l =
     exitOnError (checkHomebrew E l) (\<lambda>l. main_provider E dockerProvider (Println [] l))"

definition main :: "env \<Rightarrow> log \<Rightarrow> int \<times> log" where
  "main E l =
     (let l = Println ''=========================================='' l;
          l = Println ''Drupal 11 Installation Script'' l;
          l = Println ''=========================================='' l;
          l = Println [] l;
          (dockerProvider, l) = selectDockerProvider E l;
          l = Println [] l;
          l = checkPrerequisites E dockerProvider l
      in main_homebrew E dockerProvider l)"


section \<open>Auxiliary notions for the statements\<close>

text \<open>Trimming ASCII white space at both ends: what \<open>TrimSpace\<close> does on ASCII text.\<close>

definition trimASCII :: "string \<Rightarrow> string" where
  "trimASCII s = rev (dropWhile asciiSpace (rev (dropWhile asciiSpace s)))"

text \<open>The log at the moment \<open>selectDockerProvider\<close> reads the choice.\<close>

definition providerPrompt :: "log \<Rightarrow> log" where
  "providerPrompt l =
     Print ''Enter your choice (1 or 2): ''
       (Println ''2. Colima''
          (Println ''1. Docker Desktop''
             (Println ''Which Docker provider would you like to use?'' l)))"

text \<open>
  Environments to run the program in. \<open>joinSlash\<close> joins path elements that need no
  cleaning. The Unicode paths trim ASCII white space and lower-case the letters A to Z
  only, which is what the standard library does on well-formed text whose characters
  beyond ASCII are neither white space nor letters with a lower-case form. \<open>scripted\<close>
  answers every prompt with the same line and every other request from a table.
\<close>

definition joinSlash :: "string list \<Rightarrow> string" where
  "joinSlash xs = concat (case xs of [] \<Rightarrow> [] | x # r \<Rightarrow> x # map (\<lambda>y. ''/'' @ y) r)"

definition scripted :: "string \<Rightarrow> (request \<Rightarrow> response) \<Rightarrow> nat \<Rightarrow> request \<Rightarrow> response" where
  "scripted line table n rq = (case rq of ReadLine \<Rightarrow> Ok line | _ \<Rightarrow> table rq)"

definition dq :: string where "dq = [CHR 0x22]"

definition exampleJSON :: string where
  "exampleJSON = ''{'' @ dq @ ''raw'' @ dq @ '':[{'' @ dq @ ''https_url'' @ dq @ '':'' @ dq
                 @ ''https://example.ddev.site'' @ dq @ ''}]}''"

definition exampleUnmarshal :: "string \<Rightarrow> (string \<times> json) list option" where
  "exampleUnmarshal s =
     (if s = exampleJSON
      then Some [(''raw'', JArray [JObject [(''https_url'', JString ''https://example.ddev.site'')]])]
      else if s = ''{}'' then Some []
      else None)"

definition exampleEnv :: "(nat \<Rightarrow> request \<Rightarrow> response) \<Rightarrow> env" where
  "exampleEnv answers =
     \<lparr> uniTrimFunc = trimASCII,
       uniTrimRightFunc = (\<lambda>s. rev (dropWhile asciiSpace (rev s))),
       uniMapToLower = map lowerByte,
       respond = answers, pathJoin = joinSlash, unmarshal = exampleUnmarshal,
       configIndicatorYML = ''fg_color: white'', configSettingsYML = ''toolbar_integration: {  }'' \<rparr>"


text \<open>The requests of a log, in order.\<close>

definition requests :: "log \<Rightarrow> request list" where
  "requests l = concat (map (\<lambda>e. case e of Call rq r \<Rightarrow> [rq] | Out s \<Rightarrow> []) l)"








text \<open>
  A table where everything is present and every call succeeds: the working directory is
  \<^verbatim>\<open>/home/u\<close>, the settings file holds one reference to the sync directory, and
  \<^verbatim>\<open>ddev describe\<close> prints the example document.
\<close>

definition okTable :: "request \<Rightarrow> response" where
  "okTable rq =
     (case rq of
        Getwd \<Rightarrow> Ok ''/home/u''
      | ReadFile p \<Rightarrow> Ok (''dir = sites/default/files/sync;'' @ nl)
      | Run c d n a \<Rightarrow> (if c = StdoutOnly then Ok exampleJSON else Ok [])
      | _ \<Rightarrow> Ok [])"


text \<open>
  Replacing the first occurrence only, \<^verbatim>\<open>strings.Replace(s, old, new, 1)\<close>: what "replaces
  the fragment exactly once" says, to compare with \<open>ReplaceAll\<close>.
\<close>

fun replaceOnce_spec :: "string \<Rightarrow> string \<Rightarrow> string \<Rightarrow> string" where
  "replaceOnce_spec old new [] = []"
| "replaceOnce_spec old new (c # s) =
     (if prefix old (c # s) then new @ drop (length old) (c # s)
      else c # replaceOnce_spec old new s)"

text \<open>
  The paths of \<open>setupDrupalSettings\<close>, the log when it reads the settings file (after a
  successful \<^verbatim>\<open>MkdirAll\<close> with answer \<open>mk\<close>), and a table whose settings file refers to
  the sync directory twice.
\<close>

definition configSyncPath :: "env \<Rightarrow> string \<Rightarrow> string" where
  "configSyncPath E projectPath = pathJoin E [projectPath, ''config'', ''sync'']"

definition settingsPath :: "env \<Rightarrow> string \<Rightarrow> string" where
  "settingsPath E projectPath =
     pathJoin E [projectPath, ''web'', ''sites'', ''default'', ''settings.ddev.php'']"

definition settingsMkdirLog :: "log \<Rightarrow> log" where
  "settingsMkdirLog l = printStatus ''Setting up Drupal settings...'' l"

definition settingsReadLog :: "env \<Rightarrow> string \<Rightarrow> log \<Rightarrow> log" where
  "settingsReadLog E projectPath l =
     settingsMkdirLog l
     @ [Call (MkdirAll (configSyncPath E projectPath))
          (respond E (length (settingsMkdirLog l)) (MkdirAll (configSyncPath E projectPath)))]"

definition twoRefsTable :: "request \<Rightarrow> response" where
  "twoRefsTable rq =
     (case rq of
        ReadFile p \<Rightarrow> Ok ''a = sites/default/files/sync; b = sites/default/files/sync;''
      | _ \<Rightarrow> Ok [])"


text \<open>
  A log agrees with a file system that only the program's own calls and the processes it
  runs can change when a directory made by a successful \<^verbatim>\<open>MkdirAll\<close> is there at every
  later \<^verbatim>\<open>Stat\<close>, until a process runs. \<open>known\<close> holds the directories made so far.
\<close>

fun dirsPersist :: "string list \<Rightarrow> log \<Rightarrow> bool" where
  "dirsPersist known [] = True"
| "dirsPersist known (Out s # l) = dirsPersist known l"
| "dirsPersist known (Call rq r # l) =
     (case rq of
        MkdirAll p \<Rightarrow> dirsPersist (if isOk r then p # known else known) l
      | Stat p \<Rightarrow> (if r = NotExist \<and> p \<in> set known then False else dirsPersist known l)
      | Run c d n a \<Rightarrow> dirsPersist [] l
      | _ \<Rightarrow> dirsPersist known l)"

text \<open>A table where the directory is made and then not found.\<close>

definition vanishTable :: "request \<Rightarrow> response" where
  "vanishTable rq = (case rq of Stat p \<Rightarrow> NotExist | _ \<Rightarrow> okTable rq)"

text \<open>The requests of the installers.\<close>

definition brewListRequest :: "string \<Rightarrow> request" where
  "brewListRequest pkg = Run Discard None ''brew'' [''list'', pkg]"

definition brewInstallRequest :: "string \<Rightarrow> request" where
  "brewInstallRequest pkg = Run Inherit None ''brew'' [''install'', pkg]"


text \<open>
  The URL as the specification words it: the document has the key \<open>raw\<close> bound to a
  non-empty array whose first element is an object with a string under \<open>https_url\<close>.
\<close>

definition nestedURL_spec :: "(string \<times> json) list \<Rightarrow> string option" where
  "nestedURL_spec doc =
     (case map_of doc ''raw'' of
        Some (JArray (JObject project # rest)) \<Rightarrow>
          (case map_of project ''https_url'' of Some (JString u) \<Rightarrow> Some u | _ \<Rightarrow> None)
      | _ \<Rightarrow> None)"

text \<open>Tables where \<^verbatim>\<open>ddev describe\<close> prints the empty object, and where it prints no JSON.\<close>

definition emptyDocTable :: "request \<Rightarrow> response" where
  "emptyDocTable rq =
     (case rq of Run c d n a \<Rightarrow> (if c = StdoutOnly then Ok ''{}'' else Ok []) | _ \<Rightarrow> okTable rq)"

definition noJSONTable :: "request \<Rightarrow> response" where
  "noJSONTable rq =
     (case rq of Run c d n a \<Rightarrow> (if c = StdoutOnly then Ok ''not json'' else Ok [])
      | _ \<Rightarrow> okTable rq)"


text \<open>
  Where \<open>main\<close> stands: the log (with the provider or the project path it holds by then)
  at the moment \<open>main\<close> arrives at a line, or \<open>None\<close> when it has left before. Line 529
  (\<open>checkHomebrew\<close>) is always reached.
\<close>

definition atHomebrew :: "env \<Rightarrow> log \<Rightarrow> string \<times> log" where
  "atHomebrew E l =
     (let l = Println ''=========================================='' l;
          l = Println ''Drupal 11 Installation Script'' l;
          l = Println ''=========================================='' l;
          l = Println [] l;
          (dockerProvider, l) = selectDockerProvider E l;
          l = Println [] l;
          l = checkPrerequisites E dockerProvider l
      in (dockerProvider, l))"

text \<open>Line 535, the choice between the container backends.\<close>

definition atProvider :: "env \<Rightarrow> log \<Rightarrow> (string \<times> log) option" where
  "atProvider E l =
     (let (dockerProvider, l) = atHomebrew E l in
      case checkHomebrew E l of
        (Some e, l) \<Rightarrow> None
      | (None, l) \<Rightarrow> Some (dockerProvider, Println [] l))"

text \<open>Line 552, \<open>installDDEV\<close>.\<close>

definition atDDEV :: "env \<Rightarrow> log \<Rightarrow> log option" where
  "atDDEV E l =
     (case atProvider E l of
        None \<Rightarrow> None
      | Some (dockerProvider, l) \<Rightarrow>
          (let (ready, l) = providerReady E dockerProvider l in
           if ready then Some l else None))"

text \<open>Line 558, \<open>initDrupalProject\<close>.\<close>

definition atProject :: "env \<Rightarrow> log \<Rightarrow> log option" where
  "atProject E l =
     (case atDDEV E l of
        None \<Rightarrow> None
      | Some l \<Rightarrow>
          (let (ok, l) = installDDEV E l in
           if ok then Some (checkDDEVVersion E l) else None))"

text \<open>Line 563, the first of the seven steps in the project directory.\<close>

definition atInit :: "env \<Rightarrow> log \<Rightarrow> (string \<times> log) option" where
  "atInit E l =
     (case atProject E l of
        None \<Rightarrow> None
      | Some l \<Rightarrow>
          (case initDrupalProject E l of
             (Inl e, l) \<Rightarrow> None
           | (Inr projectPath, l) \<Rightarrow> Some (projectPath, l)))"

text \<open>The seven steps of lines 563 to 589, and a run of steps up to the first error.\<close>

definition projectSteps :: "env \<Rightarrow> string \<Rightarrow> (log \<Rightarrow> error option \<times> log) list" where
  "projectSteps E projectPath =
     [initDDEVProject E projectPath, startDDEV E projectPath,
      installDrupalDependencies E projectPath, setupDrupalSettings E projectPath,
      installDrupalSite E projectPath, enableDrupalModules E projectPath,
      importDrupalConfig E projectPath]"

fun runSteps :: "(log \<Rightarrow> error option \<times> log) list \<Rightarrow> log \<Rightarrow> error option \<times> log" where
  "runSteps [] l = (None, l)"
| "runSteps (f # fs) l = (case f l of (Some e, l) \<Rightarrow> (Some e, l) | (None, l) \<Rightarrow> runSteps fs l)"

text \<open>Line 591, the content generation.\<close>

definition atFinish :: "env \<Rightarrow> log \<Rightarrow> (string \<times> log) option" where
  "atFinish E l =
     (case atInit E l of
        None \<Rightarrow> None
      | Some (projectPath, l) \<Rightarrow>
          (case runSteps (projectSteps E projectPath) l of
             (Some e, l) \<Rightarrow> None
           | (None, l) \<Rightarrow> Some (projectPath, l)))"



definition noDDEVTable :: "request \<Rightarrow> response" where
  "noDDEVTable rq =
     (case rq of
        LookPath n \<Rightarrow> (if n = ''ddev'' then NotExist else Ok [])
      | _ \<Rightarrow> okTable rq)"


text \<open>
  The check that Docker runs; tables where Docker Desktop can be neither found nor
  installed but Docker runs, and where Docker does not run.
\<close>

definition dockerInfoRequest :: request where
  "dockerInfoRequest = Run Discard None ''docker'' [''info'']"

definition noDockerDesktopTable :: "request \<Rightarrow> response" where
  "noDockerDesktopTable rq =
     (case rq of
        Run c d n a \<Rightarrow> (if n = ''brew'' then Failed [] else okTable rq)
      | _ \<Rightarrow> okTable rq)"

definition dockerDownTable :: "request \<Rightarrow> response" where
  "dockerDownTable rq =
     (case rq of
        Run c d n a \<Rightarrow> (if n = ''docker'' then Failed [] else okTable rq)
      | _ \<Rightarrow> okTable rq)"

text \<open>
  The log when \<open>generateDrupalContent\<close> reads the answer, and a table where the content
  generation fails.
\<close>

definition contentPrompt :: "log \<Rightarrow> log" where
  "contentPrompt l = Print ''Do you want to generate content? (y/N): '' l"

definition generationFailsTable :: "request \<Rightarrow> response" where
  "generationFailsTable rq =
     (case rq of
        Run c d n a \<Rightarrow> (if a = genuArgs then Failed [] else okTable rq)
      | _ \<Rightarrow> okTable rq)"

























section \<open>Properties\<close>

subsection \<open>Strings\<close>

lemma dropWhile_ascii_head:
  assumes "\<not> list_ex runeSelf xs" and "dropWhile asciiSpace xs = d # r"
  shows "\<not> runeSelf d"
proof -
  have "d \<in> set (dropWhile asciiSpace xs)" using assms(2) by simp
  then have "d \<in> set xs" by (rule set_dropWhileD)
  then show ?thesis using assms(1) by (auto simp: list_ex_iff)
qed

lemma TrimSpace_ascii:
  assumes "\<not> list_ex runeSelf s"
  shows "TrimSpace U s = trimASCII s"
proof -
  define ys where "ys = dropWhile asciiSpace s"
  have ys: "\<not> list_ex runeSelf ys"
    using assms set_dropWhileD[of _ asciiSpace s] by (auto simp: ys_def list_ex_iff)
  define zs where "zs = dropWhile asciiSpace (rev ys)"
  have inner: "(case zs of [] \<Rightarrow> [] | d # r \<Rightarrow>
                  if runeSelf d then uniTrimRightFunc U (rev (d # r)) else rev (d # r)) = rev zs"
  proof (cases zs)
    case Nil
    then show ?thesis by simp
  next
    case (Cons d r)
    have "\<not> list_ex runeSelf (rev ys)" using ys by (simp add: list_ex_iff)
    then have "\<not> runeSelf d"
      using Cons dropWhile_ascii_head[of "rev ys" d r] by (simp add: zs_def)
    then show ?thesis using Cons by simp
  qed
  have "TrimSpace U s = (case ys of [] \<Rightarrow> [] | c # t \<Rightarrow> rev zs)"
  proof (cases ys)
    case Nil
    then show ?thesis unfolding TrimSpace_def ys_def[symmetric] by simp
  next
    case (Cons c t)
    have "\<not> runeSelf c" using ys Cons by (simp add: list_ex_iff)
    then show ?thesis
      unfolding TrimSpace_def ys_def[symmetric] using Cons inner
      by (simp add: zs_def del: rev.simps)
  qed
  also have "\<dots> = rev zs" by (cases ys) (simp_all add: zs_def)
  finally show ?thesis by (simp add: trimASCII_def zs_def ys_def)
qed







subsection \<open>The choice of the container backend\<close>

lemma selectDockerProvider_eq:
  "selectDockerProvider E l =
     (let r = respond E (length (providerPrompt l)) ReadLine in
      (if TrimSpace E (payload r) = ''2'' then ''colima'' else ''docker'',
       providerPrompt l @ [Call ReadLine r]))"
  by (simp add: selectDockerProvider_def providerPrompt_def call_def Let_def)

text \<open>
  C7: at the prompt for the container backend, the line read selects Colima exactly when
  it is \<open>2\<close> after trimming (for an ASCII line: after trimming ASCII white space); every
  other line, the empty one included, selects Docker Desktop.
\<close>

theorem selectDockerProvider_choice:
  "let line = payload (respond E (length (providerPrompt l)) ReadLine);
       provider = fst (selectDockerProvider E l)
   in (provider = ''colima'') = (TrimSpace E line = ''2'')
      \<and> (provider = ''docker'') = (TrimSpace E line \<noteq> ''2'')
      \<and> (\<not> list_ex runeSelf line \<longrightarrow> (provider = ''colima'') = (trimASCII line = ''2''))
      \<and> (line = [] \<longrightarrow> provider = ''docker'')"
  by (simp add: selectDockerProvider_eq Let_def TrimSpace_ascii trimASCII_def)

theorem selectDockerProvider_choice_witness:
  "fst (selectDockerProvider (exampleEnv (scripted (''  2  '' @ nl) okTable)) []) = ''colima''
   \<and> fst (selectDockerProvider (exampleEnv (scripted (''1'' @ nl) okTable)) []) = ''docker''
   \<and> fst (selectDockerProvider (exampleEnv (scripted (''22'' @ nl) okTable)) []) = ''docker''
   \<and> fst (selectDockerProvider (exampleEnv (scripted [] okTable)) []) = ''docker''"
proof -
  have t: "TrimSpace (exampleEnv (scripted (''  2  '' @ nl) okTable)) (''  2  '' @ nl) = ''2''"
    "TrimSpace (exampleEnv (scripted (''1'' @ nl) okTable)) (''1'' @ nl) \<noteq> ''2''"
    "TrimSpace (exampleEnv (scripted (''22'' @ nl) okTable)) (''22'' @ nl) \<noteq> ''2''"
    by code_simp+
  have r: "payload (respond (exampleEnv (scripted s okTable)) n ReadLine) = s" for s n
    by (simp add: exampleEnv_def scripted_def payload_def)
  show ?thesis
    using selectDockerProvider_choice [where E = "exampleEnv (scripted (''  2  '' @ nl) okTable)" and l = "[]"]
      selectDockerProvider_choice [where E = "exampleEnv (scripted (''1'' @ nl) okTable)" and l = "[]"]
      selectDockerProvider_choice [where E = "exampleEnv (scripted (''22'' @ nl) okTable)" and l = "[]"]
      selectDockerProvider_choice [where E = "exampleEnv (scripted [] okTable)" and l = "[]"]
    unfolding Let_def r using t by metis
qed

subsection \<open>The project name\<close>









lemma requests_append: "requests (a @ b) = requests a @ requests b"
  by (simp add: requests_def)

lemma requests_simps:
  "requests [] = []"
  "requests (Out s # l) = requests l"
  "requests (Call rq r # l) = rq # requests l"
  by (simp_all add: requests_def)

lemma requests_print:
  "requests (Print s l) = requests l"
  "requests (Println s l) = requests l"
  "requests (printStatus s l) = requests l"
  "requests (printSuccess s l) = requests l"
  "requests (printWarning s l) = requests l"
  "requests (printError s l) = requests l"
  by (simp_all add: requests_def Print_def Println_def printStatus_def printSuccess_def
      printWarning_def printError_def)




subsection \<open>The settings rewrite\<close>

lemma replaceFrom_absent: "\<not> Contains s old \<Longrightarrow> replaceFrom old new s = s"
  by (induction s) auto

lemma prefix_within:
  assumes "prefix xs (ys @ zs)" and "length xs \<le> length ys"
  shows "prefix xs ys"
  using assms by (metis prefix_length_prefix prefixI)

lemma replaceFrom_leftmost:
  assumes "old \<noteq> []" and "\<not> Contains (pre @ butlast old) old"
  shows "replaceFrom old new (pre @ old @ rest) = pre @ new @ replaceFrom old new rest"
  using assms(2)
proof (induction pre)
  case Nil
  obtain c cs where o: "old = c # cs" using assms(1) by (cases old) auto
  have "replaceFrom old new (c # cs @ rest) = new @ replaceFrom old new rest"
    using o by simp
  then show ?case using o by simp
next
  case (Cons c pre)
  have np: "\<not> prefix old ((c # pre) @ butlast old)" and nc: "\<not> Contains (pre @ butlast old) old"
    using Cons.prems by simp_all
  have "\<not> prefix old (c # pre @ old @ rest)"
  proof
    assume p: "prefix old (c # pre @ old @ rest)"
    have e: "c # pre @ old @ rest = ((c # pre) @ butlast old) @ (last old # rest)"
      using assms(1) by simp
    have "length old \<le> length ((c # pre) @ butlast old)" by simp
    with p e have "prefix old ((c # pre) @ butlast old)" by (metis prefix_within)
    with np show False by simp
  qed
  then show ?case using Cons.IH[OF nc] by simp
qed

lemma replaceFrom_pieces:
  assumes "old \<noteq> []" and "\<forall>p\<in>set ps. \<not> Contains (p @ butlast old) old" and "\<not> Contains q old"
  shows "replaceFrom old new (concat (map (\<lambda>p. p @ old) ps) @ q) = concat (map (\<lambda>p. p @ new) ps) @ q"
  using assms(2)
proof (induction ps)
  case Nil
  then show ?case using assms(3) by (simp add: replaceFrom_absent)
next
  case (Cons p ps)
  then show ?case using replaceFrom_leftmost[OF assms(1), of p new "concat (map (\<lambda>p. p @ old) ps) @ q"]
    by simp
qed

lemma setupDrupalSettings_writes:
  assumes "isOk (respond E (length (settingsMkdirLog l)) (MkdirAll (configSyncPath E pp)))"
    and "respond E (length (settingsReadLog E pp l)) (ReadFile (settingsPath E pp)) = rd"
    and "isOk rd"
    and "ReplaceAll (payload rd) ''sites/default/files/sync'' ''../config/sync'' = written"
  shows "prefix
           (settingsReadLog E pp l
            @ [Call (ReadFile (settingsPath E pp)) rd,
               Call (WriteFile (settingsPath E pp) written)
                 (respond E (Suc (length (settingsReadLog E pp l)))
                    (WriteFile (settingsPath E pp) written))])
           (snd (setupDrupalSettings E pp l))"
  using assms
  by (simp add: setupDrupalSettings_def settingsReadLog_def settingsMkdirLog_def
      configSyncPath_def settingsPath_def call_def Let_def printError_def printSuccess_def
      printStatus_def)


text \<open>
  C2, as amended: when the directory is made and the settings file is read,
  \<open>setupDrupalSettings\<close> writes back to the same path the content with every occurrence
  of \<open>sites/default/files/sync\<close> (taken from the left, not overlapping) replaced by
  \<open>../config/sync\<close> and every other byte as it was: a content without the fragment is
  written unchanged, a content with one occurrence has that one replaced, and a content
  cut by its occurrences into pieces has each separator replaced.
\<close>

theorem setupDrupalSettings_rewrite:
  "let sp = settingsPath E pp; l2 = settingsReadLog E pp l;
       mk = respond E (length (settingsMkdirLog l)) (MkdirAll (configSyncPath E pp));
       rd = respond E (length l2) (ReadFile sp);
       old = ''sites/default/files/sync''; new = ''../config/sync'';
       written = ReplaceAll (payload rd) old new
   in (isOk mk \<and> isOk rd \<longrightarrow>
         prefix (l2 @ [Call (ReadFile sp) rd,
                       Call (WriteFile sp written) (respond E (Suc (length l2)) (WriteFile sp written))])
           (snd (setupDrupalSettings E pp l)))
      \<and> (\<not> Contains (payload rd) old \<longrightarrow> written = payload rd)
      \<and> (\<forall>pre post. payload rd = pre @ old @ post \<and> \<not> Contains (pre @ butlast old) old
            \<and> \<not> Contains post old \<longrightarrow> written = pre @ new @ post)
      \<and> (\<forall>ps rest. payload rd = concat (map (\<lambda>p. p @ old) ps) @ rest
            \<and> (\<forall>p\<in>set ps. \<not> Contains (p @ butlast old) old) \<and> \<not> Contains rest old \<longrightarrow>
            written = concat (map (\<lambda>p. p @ new) ps) @ rest)"
proof -
  let ?old = "''sites/default/files/sync''"
  have ne: "?old \<noteq> []" by simp
  have one: "ReplaceAll (pre @ ?old @ post) ?old new = pre @ new @ post"
    if "\<not> Contains (pre @ butlast ?old) ?old" and "\<not> Contains post ?old" for pre post new
    using replaceFrom_leftmost[OF ne that(1), of new post] replaceFrom_absent[OF that(2), of new]
    by (simp add: ReplaceAll_def)
  have many: "ReplaceAll (concat (map (\<lambda>p. p @ ?old) ps) @ rest) ?old new
                = concat (map (\<lambda>p. p @ new) ps) @ rest"
    if "\<forall>p\<in>set ps. \<not> Contains (p @ butlast ?old) ?old" and "\<not> Contains rest ?old"
    for ps rest new
    using replaceFrom_pieces[OF ne that, of new] by (simp add: ReplaceAll_def)
  have none: "ReplaceAll s ?old new = s" if "\<not> Contains s ?old" for s new
    using replaceFrom_absent[OF that, of new] by (simp add: ReplaceAll_def)
  show ?thesis
    unfolding Let_def
    apply (intro conjI impI allI)
    subgoal by (rule setupDrupalSettings_writes) simp_all
    subgoal by (rule none)
    subgoal for pre post using one[of pre post] by metis
    subgoal for ps rest using many[of ps rest] by metis
    done
qed

theorem setupDrupalSettings_rewrite_witness:
  "Call (WriteFile ''/p/web/sites/default/settings.ddev.php'' (''dir = ../config/sync;'' @ nl)) (Ok [])
     \<in> set (snd (setupDrupalSettings (exampleEnv (scripted [] okTable)) ''/p'' []))"
proof -
  let ?E = "exampleEnv (scripted [] okTable)"
  have mk: "isOk (respond ?E n (MkdirAll p))" for n p by code_simp
  have rd: "respond ?E n (ReadFile p) = Ok (''dir = sites/default/files/sync;'' @ nl)" for n p
    by (simp add: exampleEnv_def scripted_def okTable_def)
  have wr: "respond ?E n (WriteFile p c) = Ok []" for n p c
    by (simp add: exampleEnv_def scripted_def okTable_def)
  have sp: "settingsPath ?E ''/p'' = ''/p/web/sites/default/settings.ddev.php''" by code_simp
  have c: "''dir = sites/default/files/sync;'' @ nl = ''dir = '' @ ''sites/default/files/sync'' @ '';'' @ nl"
    by simp
  have n1: "\<not> Contains (''dir = '' @ butlast ''sites/default/files/sync'') ''sites/default/files/sync''"
    by code_simp
  have n2: "\<not> Contains ('';'' @ nl) ''sites/default/files/sync''" by code_simp
  note T = setupDrupalSettings_rewrite [where E = ?E and pp = "''/p''" and l = "[]",
      unfolded Let_def rd wr sp]
  have ok: "isOk (Ok s)" for s by (simp add: isOk_def)
  have p: "payload (Ok s) = s" for s by (simp add: payload_def)
  from T have w: "ReplaceAll (''dir = sites/default/files/sync;'' @ nl) ''sites/default/files/sync''
                    ''../config/sync'' = ''dir = '' @ ''../config/sync'' @ '';'' @ nl"
    unfolding p using c n1 n2 by blast
  from T mk ok have "prefix
      (settingsReadLog ?E ''/p'' []
        @ [Call (ReadFile ''/p/web/sites/default/settings.ddev.php'')
             (Ok (''dir = sites/default/files/sync;'' @ nl)),
           Call (WriteFile ''/p/web/sites/default/settings.ddev.php''
                   (ReplaceAll (payload (Ok (''dir = sites/default/files/sync;'' @ nl)))
                      ''sites/default/files/sync'' ''../config/sync'')) (Ok [])])
      (snd (setupDrupalSettings ?E ''/p'' []))"
    by blast
  then show ?thesis unfolding p w by (auto dest!: set_mono_prefix)
qed

text \<open>
  C2 as stated fails on a settings file that refers to the sync directory twice: both
  references are rewritten, where a single replacement would leave the second.
\<close>

theorem setupDrupalSettings_rewrite_counterexample:
  "Call (WriteFile ''/p/web/sites/default/settings.ddev.php''
           ''a = ../config/sync; b = ../config/sync;'') (Ok [])
     \<in> set (snd (setupDrupalSettings (exampleEnv (scripted [] twoRefsTable)) ''/p'' []))
   \<and> replaceOnce_spec ''sites/default/files/sync'' ''../config/sync''
         ''a = sites/default/files/sync; b = sites/default/files/sync;''
       = ''a = ../config/sync; b = sites/default/files/sync;''
   \<and> ReplaceAll ''a = sites/default/files/sync; b = sites/default/files/sync;''
         ''sites/default/files/sync'' ''../config/sync''
       \<noteq> replaceOnce_spec ''sites/default/files/sync'' ''../config/sync''
           ''a = sites/default/files/sync; b = sites/default/files/sync;''"
  by code_simp

subsection \<open>The check of the sync directory\<close>

lemma setupDrupalSettings_stat_branch:
  assumes "fst (setupDrupalSettings E pp l) = Some (CallError (Stat p) r)"
  shows "\<not> dirsPersist [] (drop (length l) (snd (setupDrupalSettings E pp l)))"
  using assms
  by (simp add: setupDrupalSettings_def call_def Let_def printError_def printSuccess_def
      printStatus_def split: if_splits)

lemma setupDrupalSettings_stat_after_mkdir:
  assumes "Stat p \<in> set (requests (drop (length l) (snd (setupDrupalSettings E pp l))))"
  shows "p = configSyncPath E pp \<and>
         isOk (respond E (length (settingsMkdirLog l)) (MkdirAll p)) \<and>
         Call (MkdirAll p) (respond E (length (settingsMkdirLog l)) (MkdirAll p))
           \<in> set (drop (length l) (snd (setupDrupalSettings E pp l)))"
  using assms
  by (simp add: setupDrupalSettings_def call_def Let_def printError_def printSuccess_def
      printStatus_def requests_simps configSyncPath_def settingsMkdirLog_def split: if_splits)

text \<open>
  C9: in a run whose log agrees with a file system that only the program and the
  processes it runs change, \<open>setupDrupalSettings\<close> never returns the error of its final
  \<^verbatim>\<open>Stat\<close>: whenever that \<^verbatim>\<open>Stat\<close> is requested, it is for the directory that a
  \<^verbatim>\<open>MkdirAll\<close> of the same call has made, with no process run in between.
\<close>

theorem setupDrupalSettings_stat:
  "let res = setupDrupalSettings E pp l; added = drop (length l) (snd res)
   in (dirsPersist [] added \<longrightarrow> (\<forall>p r. fst res \<noteq> Some (CallError (Stat p) r)))
      \<and> (\<forall>p. Stat p \<in> set (requests added) \<longrightarrow>
            p = configSyncPath E pp
            \<and> isOk (respond E (length (settingsMkdirLog l)) (MkdirAll p))
            \<and> Call (MkdirAll p) (respond E (length (settingsMkdirLog l)) (MkdirAll p)) \<in> set added)"
  unfolding Let_def
  using setupDrupalSettings_stat_branch[of E pp l] setupDrupalSettings_stat_after_mkdir[of _ l E pp]
  by blast

theorem setupDrupalSettings_stat_witness:
  "dirsPersist [] (snd (setupDrupalSettings (exampleEnv (scripted [] okTable)) ''/p'' []))
   \<and> fst (setupDrupalSettings (exampleEnv (scripted [] okTable)) ''/p'' [])
       \<noteq> Some (CallError (Stat ''/p/config/sync'') NotExist)
   \<and> Call (MkdirAll ''/p/config/sync'') (Ok [])
       \<in> set (snd (setupDrupalSettings (exampleEnv (scripted [] okTable)) ''/p'' []))
   \<and> fst (setupDrupalSettings (exampleEnv (scripted [] vanishTable)) ''/p'' [])
       = Some (CallError (Stat ''/p/config/sync'') NotExist)
   \<and> \<not> dirsPersist [] (snd (setupDrupalSettings (exampleEnv (scripted [] vanishTable)) ''/p'' []))"
proof -
  let ?E = "exampleEnv (scripted [] okTable)"
  let ?V = "exampleEnv (scripted [] vanishTable)"
  have d: "dirsPersist [] (snd (setupDrupalSettings ?E ''/p'' []))" by code_simp
  have s: "Stat ''/p/config/sync'' \<in> set (requests (snd (setupDrupalSettings ?E ''/p'' [])))"
    by code_simp
  have m: "respond ?E n (MkdirAll p) = Ok []" for n p
    by (simp add: exampleEnv_def scripted_def okTable_def)
  have v: "fst (setupDrupalSettings ?V ''/p'' []) = Some (CallError (Stat ''/p/config/sync'') NotExist)"
    by code_simp
  note T = setupDrupalSettings_stat [where E = ?E and pp = "''/p''" and l = "[]",
      unfolded Let_def m, simplified drop_0 list.size]
  note U = setupDrupalSettings_stat [where E = ?V and pp = "''/p''" and l = "[]",
      unfolded Let_def, simplified drop_0 list.size]
  from T d have "fst (setupDrupalSettings ?E ''/p'' []) \<noteq> Some (CallError (Stat ''/p/config/sync'') NotExist)"
    by blast
  moreover from T s have "Call (MkdirAll ''/p/config/sync'') (Ok [])
       \<in> set (snd (setupDrupalSettings ?E ''/p'' []))" by blast
  moreover from U v have "\<not> dirsPersist [] (snd (setupDrupalSettings ?V ''/p'' []))" by blast
  ultimately show ?thesis using d v by blast
qed

subsection \<open>Installers when the tool is present\<close>

text \<open>
  C6: when the tool is present (\<^verbatim>\<open>brew list docker\<close> succeeds, \<^verbatim>\<open>colima\<close> or \<^verbatim>\<open>ddev\<close> is
  on the search path), the installer returns true, its only request is that check (so no
  \<^verbatim>\<open>brew install\<close> runs), and it prints that the tool is already installed.
\<close>

theorem installers_present:
  "(isOk (respond E (Suc (length l)) (brewListRequest ''docker'')) \<longrightarrow>
      installDocker E l =
        (True, printSuccess ''Docker Desktop is already installed''
                 (printStatus ''Checking Docker Desktop installation...'' l
                  @ [Call (brewListRequest ''docker'')
                       (respond E (Suc (length l)) (brewListRequest ''docker''))]))
      \<and> requests (snd (installDocker E l)) = requests l @ [brewListRequest ''docker''])
   \<and> (isOk (respond E (Suc (length l)) (LookPath ''colima'')) \<longrightarrow>
      installColima E l =
        (True, printSuccess ''Colima is already installed''
                 (printStatus ''Checking Colima installation...'' l
                  @ [Call (LookPath ''colima'') (respond E (Suc (length l)) (LookPath ''colima''))]))
      \<and> requests (snd (installColima E l)) = requests l @ [LookPath ''colima''])
   \<and> (isOk (respond E (Suc (length l)) (LookPath ''ddev'')) \<longrightarrow>
      installDDEV E l =
        (True, printSuccess ''DDEV is already installed''
                 (printStatus ''Checking DDEV installation...'' l
                  @ [Call (LookPath ''ddev'') (respond E (Suc (length l)) (LookPath ''ddev''))]))
      \<and> requests (snd (installDDEV E l)) = requests l @ [LookPath ''ddev''])"
  by (simp add: installDocker_def installColima_def installDDEV_def brewPackageInstalled_def
      commandExists_def call_def Let_def brewListRequest_def printStatus_def
      requests_append requests_print requests_simps)

theorem installers_present_witness:
  "installDocker (exampleEnv (scripted [] okTable)) [] =
     (True, printSuccess ''Docker Desktop is already installed''
              (printStatus ''Checking Docker Desktop installation...'' []
               @ [Call (brewListRequest ''docker'') (Ok [])]))
   \<and> requests (snd (installDocker (exampleEnv (scripted [] okTable)) [])) = [brewListRequest ''docker'']
   \<and> requests (snd (installColima (exampleEnv (scripted [] okTable)) [])) = [LookPath ''colima'']
   \<and> requests (snd (installDDEV (exampleEnv (scripted [] okTable)) [])) = [LookPath ''ddev'']
   \<and> fst (installColima (exampleEnv (scripted [] okTable)) [])
   \<and> fst (installDDEV (exampleEnv (scripted [] okTable)) [])"
proof -
  let ?E = "exampleEnv (scripted [] okTable)"
  have r: "respond ?E n (brewListRequest p) = Ok []" "respond ?E n (LookPath p) = Ok []" for n p
    by (simp_all add: exampleEnv_def scripted_def okTable_def brewListRequest_def)
  have ok: "isOk (Ok [])" by (simp add: isOk_def)
  show ?thesis
    using installers_present [where E = ?E and l = "[]", unfolded r] ok
    by (simp add: requests_simps requests_append requests_print)
qed

subsection \<open>The site URL\<close>

lemma httpsURL_spec: "httpsURL doc = Inr (nestedURL_spec doc)"
  by (auto simp: httpsURL_def nestedURL_spec_def index_def
      split: option.splits json.splits list.splits sum.splits)

lemma getSiteURL_eq:
  "fst (getSiteURL E pp l) =
     Inr (let r = respond E (Suc (length l)) (describeRequest pp) in
          if isOk r then
            (case unmarshal E (payload r) of
               None \<Rightarrow> []
             | Some doc \<Rightarrow> (case nestedURL_spec doc of Some u \<Rightarrow> u | None \<Rightarrow> []))
          else [])"
  by (simp add: getSiteURL_def call_def Let_def httpsURL_spec printStatus_def
      split: option.splits)

text \<open>
  C3: \<open>getSiteURL\<close> never panics, whatever \<^verbatim>\<open>ddev describe\<close> prints and whatever the
  decoder makes of it: its look-ups always yield a result, the URL is the string under
  \<open>https_url\<close> in the first element of the array under \<open>raw\<close> when the document has that
  shape, and the empty string when the command fails, when the output does not decode,
  and for every other document. The document
  \<open>{"raw":[{"https_url":"https://example.ddev.site"}]}\<close> gives its URL, the empty
  document the empty string.
\<close>

theorem getSiteURL_total:
  "let r = respond E (Suc (length l)) (describeRequest pp); res = fst (getSiteURL E pp l)
   in (\<exists>url. res = Inr url)
      \<and> (\<forall>doc. httpsURL doc = Inr (nestedURL_spec doc))
      \<and> (\<forall>doc u. isOk r \<and> unmarshal E (payload r) = Some doc \<and> nestedURL_spec doc = Some u
            \<longrightarrow> res = Inr u)
      \<and> (\<forall>doc. isOk r \<and> unmarshal E (payload r) = Some doc \<and> nestedURL_spec doc = None
            \<longrightarrow> res = Inr [])
      \<and> (isOk r \<and> unmarshal E (payload r) = None \<longrightarrow> res = Inr [])
      \<and> (\<not> isOk r \<longrightarrow> res = Inr [])
      \<and> nestedURL_spec
           [(''raw'', JArray [JObject [(''https_url'', JString ''https://example.ddev.site'')]])]
         = Some ''https://example.ddev.site''
      \<and> nestedURL_spec [] = None"
proof -
  have a: "nestedURL_spec
           [(''raw'', JArray [JObject [(''https_url'', JString ''https://example.ddev.site'')]])]
         = Some ''https://example.ddev.site''" by code_simp
  have b: "nestedURL_spec [] = None" by code_simp
  show ?thesis
    unfolding Let_def getSiteURL_eq
    using a b httpsURL_spec by simp
qed

theorem getSiteURL_total_witness:
  "fst (getSiteURL (exampleEnv (scripted [] okTable)) ''/p'' []) = Inr ''https://example.ddev.site''
   \<and> fst (getSiteURL (exampleEnv (scripted [] emptyDocTable)) ''/p'' []) = Inr []
   \<and> fst (getSiteURL (exampleEnv (scripted [] noJSONTable)) ''/p'' []) = Inr []
   \<and> fst (getSiteURL (exampleEnv (\<lambda>n rq. Failed [])) ''/p'' []) = Inr []"
proof -
  let ?E = "exampleEnv (scripted [] okTable)"
  let ?D = "exampleEnv (scripted [] emptyDocTable)"
  let ?N = "exampleEnv (scripted [] noJSONTable)"
  let ?F = "exampleEnv (\<lambda>n rq. Failed [])"
  have e: "isOk (respond ?E (Suc (length [])) (describeRequest ''/p''))
           \<and> unmarshal ?E (payload (respond ?E (Suc (length [])) (describeRequest ''/p'')))
               = Some [(''raw'', JArray [JObject [(''https_url'', JString ''https://example.ddev.site'')]])]
           \<and> nestedURL_spec [(''raw'', JArray [JObject [(''https_url'', JString ''https://example.ddev.site'')]])]
               = Some ''https://example.ddev.site''"
    by code_simp
  have d: "isOk (respond ?D (Suc (length [])) (describeRequest ''/p''))
           \<and> unmarshal ?D (payload (respond ?D (Suc (length [])) (describeRequest ''/p''))) = Some []
           \<and> nestedURL_spec [] = None"
    by code_simp
  have n: "isOk (respond ?N (Suc (length [])) (describeRequest ''/p''))
           \<and> unmarshal ?N (payload (respond ?N (Suc (length [])) (describeRequest ''/p''))) = None"
    by code_simp
  have f: "\<not> isOk (respond ?F (Suc (length [])) (describeRequest ''/p''))" by code_simp
  from getSiteURL_total [where E = ?E and pp = "''/p''" and l = "[]", unfolded Let_def] e
  have 1: "fst (getSiteURL ?E ''/p'' []) = Inr ''https://example.ddev.site''" by blast
  from getSiteURL_total [where E = ?D and pp = "''/p''" and l = "[]", unfolded Let_def] d
  have 2: "fst (getSiteURL ?D ''/p'' []) = Inr []" by blast
  from getSiteURL_total [where E = ?N and pp = "''/p''" and l = "[]", unfolded Let_def] n
  have 3: "fst (getSiteURL ?N ''/p'' []) = Inr []" by blast
  from getSiteURL_total [where E = ?F and pp = "''/p''" and l = "[]", unfolded Let_def] f
  have 4: "fst (getSiteURL ?F ''/p'' []) = Inr []" by blast
  from 1 2 3 4 show ?thesis by blast
qed

subsection \<open>Where main stands\<close>


lemma main_at_homebrew:
  "main E l = main_homebrew E (fst (atHomebrew E l)) (snd (atHomebrew E l))"
  by (simp add: main_def atHomebrew_def Let_def split: prod.splits)


lemma main_at_provider:
  assumes "atProvider E l0 = Some (prov, l)"
  shows "main E l0 = main_provider E prov l"
  using assms
  by (auto simp: main_at_homebrew atProvider_def main_homebrew_def exitOnError_def
      split: prod.splits option.splits)

lemma main_at_ddev:
  assumes "atDDEV E l0 = Some l"
  shows "main E l0 = main_ddev E l"
  using assms
  by (auto simp: atDDEV_def main_at_provider main_provider_def
      split: prod.splits option.splits if_splits)

lemma main_at_project:
  assumes "atProject E l0 = Some l"
  shows "main E l0 = main_project E l"
  using assms
  by (auto simp: atProject_def main_at_ddev main_ddev_def
      split: prod.splits option.splits if_splits)

lemma main_at_init:
  assumes "atInit E l0 = Some (pp, l)"
  shows "main E l0 = main_init E pp l"
  using assms
  by (auto simp: atInit_def main_at_project main_project_def
      split: prod.splits option.splits sum.splits)

lemma main_init_runSteps:
  "main_init E pp l = exitOnError (runSteps (projectSteps E pp) l) (main_finish E pp)"
  by (simp add: projectSteps_def main_init_def main_start_def main_dependencies_def
      main_settings_def main_site_def main_modules_def main_import_def exitOnError_def
      split: prod.splits option.splits)

lemma main_at_finish:
  assumes "atFinish E l0 = Some (pp, l)"
  shows "main E l0 = main_finish E pp l"
  using assms
  by (auto simp: atFinish_def main_at_init main_init_runSteps exitOnError_def
      split: prod.splits option.splits)


lemma main_finish_code: "fst (main_finish E pp l) = 0"
proof -
  have "\<exists>u. fst (getSiteURL E pp l') = Inr u" for l'
    using getSiteURL_eq[of E pp l'] by simp
  then show ?thesis
    by (auto simp: main_finish_def Let_def split: prod.splits sum.splits) (metis fst_conv sum.distinct(1))+
qed





subsection \<open>A fresh installation of DDEV\<close>

lemma installDDEV_eq:
  "installDDEV E l =
     (let l1 = printStatus ''Checking DDEV installation...'' l;
          lp = respond E (length l1) (LookPath ''ddev'');
          l2 = l1 @ [Call (LookPath ''ddev'') lp] in
      if isOk lp then (True, printSuccess ''DDEV is already installed'' l2)
      else
        (let l3 = printStatus ''DDEV not found. Installing via Homebrew...'' l2;
             inst = respond E (length l3) (brewInstallRequest ''ddev/ddev/ddev'');
             l4 = l3 @ [Call (brewInstallRequest ''ddev/ddev/ddev'') inst] in
         (False, if isOk inst then printSuccess ''DDEV installed'' l4
                 else printError ''Failed to install DDEV'' l4)))"
  by (simp add: installDDEV_def commandExists_def runCommand_def call_def errOf_def Let_def
      brewInstallRequest_def)

text \<open>
  C8: \<open>installDDEV\<close> returns true exactly when \<^verbatim>\<open>ddev\<close> is found on the search path at its
  check. When it is not found and \<^verbatim>\<open>brew install ddev/ddev/ddev\<close> succeeds,
  \<open>installDDEV\<close> prints that DDEV is installed and returns false, and \<open>main\<close>, arrived
  there, ends at once with the code 1 and that line as its last output.
\<close>

theorem installDDEV_fresh:
  "let l1 = printStatus ''Checking DDEV installation...'' l;
       lp = respond E (length l1) (LookPath ''ddev'');
       l3 = printStatus ''DDEV not found. Installing via Homebrew...''
              (l1 @ [Call (LookPath ''ddev'') lp]);
       inst = respond E (length l3) (brewInstallRequest ''ddev/ddev/ddev'');
       installed = printSuccess ''DDEV installed''
                     (l3 @ [Call (brewInstallRequest ''ddev/ddev/ddev'') inst])
   in fst (installDDEV E l) = isOk lp
      \<and> (\<not> isOk lp \<and> isOk inst \<longrightarrow>
            installDDEV E l = (False, installed)
            \<and> main_ddev E l = (1, installed)
            \<and> (\<forall>l0. atDDEV E l0 = Some l \<longrightarrow> main E l0 = (1, installed)))"
  by (simp add: installDDEV_eq Let_def main_ddev_def main_at_ddev)

theorem installDDEV_fresh_witness:
  "fst (main (exampleEnv (scripted (''1'' @ nl) noDDEVTable)) []) = 1
   \<and> last (snd (main (exampleEnv (scripted (''1'' @ nl) noDDEVTable)) []))
       = Out (colorGreen @ ''[SUCCESS]'' @ colorReset @ '' '' @ ''DDEV installed'' @ nl)
   \<and> last (requests (snd (main (exampleEnv (scripted (''1'' @ nl) noDDEVTable)) [])))
       = brewInstallRequest ''ddev/ddev/ddev''"
proof -
  let ?N = "exampleEnv (scripted (''1'' @ nl) noDDEVTable)"
  have a: "atDDEV ?N [] \<noteq> None" by code_simp
  then obtain l where l: "atDDEV ?N [] = Some l" by blast
  have lp: "\<not> isOk (respond ?N n (LookPath ''ddev''))" for n by code_simp
  have inst: "isOk (respond ?N n (brewInstallRequest ''ddev/ddev/ddev''))" for n by code_simp
  from installDDEV_fresh [where E = ?N and l = l, unfolded Let_def] lp inst l
  have m: "main ?N [] =
     (1, printSuccess ''DDEV installed''
           (printStatus ''DDEV not found. Installing via Homebrew...''
              (printStatus ''Checking DDEV installation...'' l
               @ [Call (LookPath ''ddev'')
                    (respond ?N (length (printStatus ''Checking DDEV installation...'' l))
                       (LookPath ''ddev''))])
            @ [Call (brewInstallRequest ''ddev/ddev/ddev'')
                 (respond ?N
                    (length (printStatus ''DDEV not found. Installing via Homebrew...''
                       (printStatus ''Checking DDEV installation...'' l
                        @ [Call (LookPath ''ddev'')
                             (respond ?N (length (printStatus ''Checking DDEV installation...'' l))
                                (LookPath ''ddev''))])))
                    (brewInstallRequest ''ddev/ddev/ddev''))]))"
    by blast
  show ?thesis unfolding m
    by (simp add: printSuccess_def requests_append requests_simps)
qed


subsection \<open>The Docker Desktop branch\<close>

lemma providerReady_docker:
  "providerReady E ''docker'' l =
     (let l1 = snd (installDocker E l);
          info = respond E (length l1) dockerInfoRequest;
          l2 = l1 @ [Call dockerInfoRequest info] in
      if isOk info then (True, printSuccess ''Docker is running'' l2)
      else (False, printError ''Please start Docker Desktop and run this script again.''
                     (printWarning ''Docker is not running. Please start Docker Desktop.'' l2)))"
  by (simp add: providerReady_def checkDockerRunning_def call_def Let_def dockerInfoRequest_def
      split: prod.splits)

text \<open>
  C10: with Docker Desktop chosen, \<open>main\<close> goes on from the backend exactly when
  \<^verbatim>\<open>docker info\<close> succeeds, and ends there with the code 1 exactly when it fails. What
  \<open>installDocker\<close> returns plays no part: only its log is kept.
\<close>

theorem docker_branch:
  "let l1 = snd (installDocker E l);
       info = respond E (length l1) dockerInfoRequest;
       l2 = l1 @ [Call dockerInfoRequest info];
       stopped = printError ''Please start Docker Desktop and run this script again.''
                   (printWarning ''Docker is not running. Please start Docker Desktop.'' l2);
       running = printSuccess ''Docker is running'' l2
   in providerReady E ''docker'' l = (if isOk info then (True, running) else (False, stopped))
      \<and> (\<forall>l0. atProvider E l0 = Some (''docker'', l) \<longrightarrow>
            (atDDEV E l0 = None) = (\<not> isOk info)
            \<and> (\<not> isOk info \<longrightarrow> main E l0 = (1, stopped))
            \<and> (isOk info \<longrightarrow> atDDEV E l0 = Some running \<and> main E l0 = main_ddev E running))"
  by (simp add: providerReady_docker Let_def main_at_provider main_provider_def atDDEV_def)


theorem docker_branch_witness:
  "\<not> fst (installDocker (exampleEnv (scripted (''1'' @ nl) noDockerDesktopTable))
            (snd (the (atProvider (exampleEnv (scripted (''1'' @ nl) noDockerDesktopTable)) []))))
   \<and> atDDEV (exampleEnv (scripted (''1'' @ nl) noDockerDesktopTable)) [] \<noteq> None
   \<and> fst (main (exampleEnv (scripted (''1'' @ nl) noDockerDesktopTable)) []) = 0
   \<and> fst (installDocker (exampleEnv (scripted (''1'' @ nl) dockerDownTable))
            (snd (the (atProvider (exampleEnv (scripted (''1'' @ nl) dockerDownTable)) []))))
   \<and> fst (main (exampleEnv (scripted (''1'' @ nl) dockerDownTable)) []) = 1
   \<and> last (requests (snd (main (exampleEnv (scripted (''1'' @ nl) dockerDownTable)) [])))
       = dockerInfoRequest"
proof -
  let ?W = "exampleEnv (scripted (''1'' @ nl) noDockerDesktopTable)"
  let ?D = "exampleEnv (scripted (''1'' @ nl) dockerDownTable)"
  have pw: "fst (the (atProvider ?W [])) = ''docker'' \<and> atProvider ?W [] \<noteq> None" by code_simp
  have pd: "fst (the (atProvider ?D [])) = ''docker'' \<and> atProvider ?D [] \<noteq> None" by code_simp
  have iw: "isOk (respond ?W n dockerInfoRequest)" for n by code_simp
  have id: "\<not> isOk (respond ?D n dockerInfoRequest)" for n by code_simp
  have 1: "\<not> fst (installDocker ?W (snd (the (atProvider ?W []))))" by code_simp
  have 4: "fst (installDocker ?D (snd (the (atProvider ?D []))))" by code_simp
  have 3: "fst (main ?W []) = 0" by code_simp
  from pw obtain lw where aw: "atProvider ?W [] = Some (''docker'', lw)"
    by (cases "atProvider ?W []") auto
  from pd obtain ld where ad: "atProvider ?D [] = Some (''docker'', ld)"
    by (cases "atProvider ?D []") auto
  note TW = docker_branch [where E = ?W and l = lw, unfolded Let_def]
  note TD = docker_branch [where E = ?D and l = ld, unfolded Let_def]
  from TW have "(atDDEV ?W [] = None) = (\<not> isOk (respond ?W (length (snd (installDocker ?W lw))) dockerInfoRequest))"
    using aw by blast
  then have 2: "atDDEV ?W [] \<noteq> None" using iw by simp
  from TD have m: "main ?D [] = (1, printError ''Please start Docker Desktop and run this script again.''
         (printWarning ''Docker is not running. Please start Docker Desktop.''
            (snd (installDocker ?D ld)
             @ [Call dockerInfoRequest
                  (respond ?D (length (snd (installDocker ?D ld))) dockerInfoRequest)])))"
    using ad id by blast
  have 5: "fst (main ?D []) = 1" unfolding m by simp
  have 6: "last (requests (snd (main ?D []))) = dockerInfoRequest" unfolding m
    by (simp add: requests_print requests_append requests_simps)
  from 1 2 3 4 5 6 show ?thesis by blast
qed

subsection \<open>The content generation\<close>

lemma generateDrupalContent_eq:
  "generateDrupalContent E pp l =
     (let l1 = contentPrompt l; r = respond E (length l1) ReadLine; l2 = l1 @ [Call ReadLine r] in
      if TrimSpace E (ToLower E (payload r)) \<noteq> ''y'' then
        (None, printSuccess (checkMark @ '' Drupal content generation skipped'') l2)
      else
        (let l3 = printStatus ''Generating Drupal content...'' l2;
             rq1 = Run Inherit (Some pp) ''ddev'' genuArgs;
             u = respond E (length l3) rq1; l4 = l3 @ [Call rq1 u] in
         if \<not> isOk u then (Some (CallError rq1 u), printError ''Failed to generate users'' l4)
         else
           (let rq2 = Run Inherit (Some pp) ''ddev'' gencArgs;
                c = respond E (length l4) rq2; l5 = l4 @ [Call rq2 c] in
            if \<not> isOk c then (Some (CallError rq2 c), printError ''Failed to generate content'' l5)
            else (None, printSuccess (checkMark @ '' Drupal content generated'') l5))))"
  by (simp add: generateDrupalContent_def contentPrompt_def runIn_def call_def errOf_def Let_def)

lemma main_finish_eq:
  "\<exists>url. main_finish E pp l =
     (0, displayFinalInstructions url
           (snd (getSiteURL E pp
                   (if fst (generateDrupalContent E pp l) \<noteq> None
                    then printWarning ''Content generation failed, but continuing...''
                           (snd (generateDrupalContent E pp l))
                    else snd (generateDrupalContent E pp l)))))"
proof -
  obtain err lg where g: "generateDrupalContent E pp l = (err, lg)" by force
  define lw where "lw = (if err \<noteq> None
      then printWarning ''Content generation failed, but continuing...'' lg else lg)"
  obtain x l' where s: "getSiteURL E pp lw = (x, l')" by force
  obtain u where "fst (getSiteURL E pp lw) = Inr u" using getSiteURL_eq[of E pp lw] by simp
  with s have x: "x = Inr u" by simp
  have "main_finish E pp l = (0, displayFinalInstructions u l')"
    unfolding main_finish_def g Let_def prod.case lw_def[symmetric] s x by simp
  then show ?thesis using g s by (auto simp: lw_def)
qed

text \<open>
  C5, as amended: the answer at the prompt is lower-cased and trimmed, and the content is
  generated exactly when the result is \<open>y\<close>. For every other answer (the empty one, the
  default, included) no generation command is requested, the step prints that it is
  skipped and returns no error. Whatever the step returns, \<open>main\<close>, arrived there, ends
  with the code 0 after the site URL and the final instructions; an error of the
  generation adds the warning line only.
\<close>

theorem generateDrupalContent_answer:
  "let l1 = contentPrompt l; r = respond E (length l1) ReadLine;
       answer = TrimSpace E (ToLower E (payload r)); res = generateDrupalContent E pp l
   in (answer \<noteq> ''y'' \<longrightarrow>
         res = (None, printSuccess (checkMark @ '' Drupal content generation skipped'')
                        (l1 @ [Call ReadLine r]))
         \<and> requests (snd res) = requests l @ [ReadLine])
      \<and> (answer = ''y'' \<longrightarrow>
         prefix (requests l @ [ReadLine, Run Inherit (Some pp) ''ddev'' genuArgs])
           (requests (snd res)))
      \<and> (\<forall>l0. atFinish E l0 = Some (pp, l) \<longrightarrow>
            fst (main E l0) = 0
            \<and> (\<exists>url. main E l0 =
                  (0, displayFinalInstructions url
                        (snd (getSiteURL E pp
                                (if fst res \<noteq> None
                                 then printWarning ''Content generation failed, but continuing...''
                                        (snd res)
                                 else snd res))))))"
proof -
  have sk: "requests (printSuccess m (contentPrompt l @ [Call ReadLine r])) = requests l @ [ReadLine]"
    for m r
    by (simp add: requests_print requests_append requests_simps contentPrompt_def)
  have gen: "prefix (requests l @ [ReadLine, Run Inherit (Some pp) ''ddev'' genuArgs])
               (requests (snd (generateDrupalContent E pp l)))"
    if "TrimSpace E (ToLower E (payload (respond E (length (contentPrompt l)) ReadLine))) = ''y''"
    using that
    by (simp add: generateDrupalContent_eq Let_def requests_print requests_append requests_simps
        contentPrompt_def)
  show ?thesis
    unfolding Let_def
    apply (intro conjI allI impI)
    subgoal by (simp add: generateDrupalContent_eq Let_def)
    subgoal by (simp add: generateDrupalContent_eq Let_def sk)
    subgoal by (rule gen)
    subgoal by (simp add: main_at_finish main_finish_code)
    subgoal for l0 using main_finish_eq[of E pp l] by (simp add: main_at_finish)
    done
qed


theorem generateDrupalContent_answer_witness:
  "fst (main (exampleEnv (scripted (''n'' @ nl) okTable)) []) = 0
   \<and> requests (snd (generateDrupalContent (exampleEnv (scripted (''n'' @ nl) okTable))
         (fst (the (atFinish (exampleEnv (scripted (''n'' @ nl) okTable)) [])))
         (snd (the (atFinish (exampleEnv (scripted (''n'' @ nl) okTable)) [])))))
       = requests (snd (the (atFinish (exampleEnv (scripted (''n'' @ nl) okTable)) []))) @ [ReadLine]
   \<and> fst (generateDrupalContent (exampleEnv (scripted (''y'' @ nl) generationFailsTable))
         (fst (the (atFinish (exampleEnv (scripted (''y'' @ nl) generationFailsTable)) [])))
         (snd (the (atFinish (exampleEnv (scripted (''y'' @ nl) generationFailsTable)) []))))
       = Some (CallError (Run Inherit (Some ''/home/u/y'') ''ddev'' genuArgs) (Failed []))
   \<and> fst (main (exampleEnv (scripted (''y'' @ nl) generationFailsTable)) []) = 0"
proof -
  let ?S = "exampleEnv (scripted (''n'' @ nl) okTable)"
  let ?G = "exampleEnv (scripted (''y'' @ nl) generationFailsTable)"
  have fs: "atFinish ?S [] \<noteq> None" and fg: "atFinish ?G [] \<noteq> None" by code_simp+
  from fs obtain ps ls where s: "atFinish ?S [] = Some (ps, ls)" by (cases "atFinish ?S []") auto
  from fg obtain pg lg where g: "atFinish ?G [] = Some (pg, lg)" by (cases "atFinish ?G []") auto
  have a: "TrimSpace ?S (ToLower ?S (payload (respond ?S n ReadLine))) \<noteq> ''y''" for n
    by code_simp
  have e: "fst (generateDrupalContent ?G (fst (the (atFinish ?G []))) (snd (the (atFinish ?G []))))
             = Some (CallError (Run Inherit (Some ''/home/u/y'') ''ddev'' genuArgs) (Failed []))"
    by code_simp
  note TS = generateDrupalContent_answer [where E = ?S and pp = ps and l = ls, unfolded Let_def]
  note TG = generateDrupalContent_answer [where E = ?G and pp = pg and l = lg, unfolded Let_def]
  from TS a have "requests (snd (generateDrupalContent ?S ps ls)) = requests ls @ [ReadLine]"
    by blast
  moreover from TS s have "fst (main ?S []) = 0" by blast
  moreover from TG g have "fst (main ?G []) = 0" by blast
  ultimately show ?thesis using e s by simp
qed

text \<open>
  C5 as stated fails on the answers \<open>Y\<close> and \<open> y \<close>, which are not the token \<open>y\<close> and
  still start the generation.
\<close>

theorem generateDrupalContent_answer_counterexample:
  "''Y'' @ nl \<noteq> ''y'' @ nl
   \<and> Run Inherit (Some ''/p'') ''ddev'' genuArgs
       \<in> set (requests (snd (generateDrupalContent (exampleEnv (scripted (''Y'' @ nl) okTable)) ''/p'' [])))
   \<and> Run Inherit (Some ''/p'') ''ddev'' genuArgs
       \<in> set (requests (snd (generateDrupalContent (exampleEnv (scripted ('' y '' @ nl) okTable)) ''/p'' [])))"
  by code_simp

subsection \<open>The steps and the answers of the environment\<close>



























subsection \<open>Worlds and the exit code\<close>





















subsection \<open>The exit code\<close>




end
